theory Spec2Isabelle
  imports Main "HOL-Library.Word"
begin

unbundle bit_operations_syntax

section \<open>CXL socket transport: data model\<close>

text \<open>
  Shallow embedding of \<^verbatim>\<open>hw/pci-bridge/cxl_socket_transport.c\<close>.
  Fixed-width C integers are words; \<^verbatim>\<open>size_t\<close> values are natural numbers, with
  the reduction modulo \<open>2 ^ 64\<close> written out at the two subtractions of
  \<^verbatim>\<open>process_incoming_packets\<close>, the only places where a \<^verbatim>\<open>size_t\<close> can wrap.
  The C \<^verbatim>\<open>int size\<close> arguments are integers: they are only compared and converted.
\<close>

type_synonym uint8_t = "8 word"
type_synonym uint16_t = "16 word"
type_synonym uint32_t = "32 word"
type_synonym uint64_t = "64 word"
type_synonym hwaddr = "64 word"

definition MAX_TAG :: nat where
  "MAX_TAG = 512"

definition MAX_PAYLOAD_SIZE :: nat where
  "MAX_PAYLOAD_SIZE = 512"

text \<open>
  The packet structures are declared in \<^verbatim>\<open>hw/cxl/cxl_socket_transport.h\<close>, which is
  not part of the sources at hand. Everything the functions below need from that
  header is a parameter: the value of each \<^verbatim>\<open>sizeof\<close>, the way the
  \<^verbatim>\<open>payload_length\<close> field is read from the bytes of a system header, and the way
  the \<^verbatim>\<open>data\<close> field is read from the bytes of a completion with data.
\<close>

record layout =
  sizeof_system_header_packet_t :: nat
  payload_length_of :: "uint8_t list \<Rightarrow> nat"
  sizeof_base_sideband_packet_t :: nat
  sizeof_cxl_mem_header_t :: nat
  sizeof_cxl_mem_m2s_req_header_t :: nat
  sizeof_cxl_mem_m2s_rwd_header_t :: nat
  sizeof_cxl_mem_s2m_ndr_packet_t :: nat
  sizeof_cxl_mem_s2m_drs_packet_t :: nat
  sizeof_cxl_io_mem_rd_packet_t :: nat
  sizeof_cxl_io_mem_wr_packet_32b_t :: nat
  sizeof_cxl_io_mem_wr_packet_64b_t :: nat
  sizeof_cxl_io_cfg_rd_packet_t :: nat
  sizeof_cxl_io_cfg_wr_packet_t :: nat
  sizeof_cxl_io_completion_packet_t :: nat
  sizeof_cxl_io_completion_data_packet_32b_t :: nat
  sizeof_cxl_io_completion_data_packet_64b_t :: nat
  completion_data_32b_of :: "uint8_t list \<Rightarrow> uint32_t"
  completion_data_64b_of :: "uint8_t list \<Rightarrow> uint64_t"

text \<open>A function either returns, or the process dies in a failed \<^verbatim>\<open>assert\<close>, or it
  dereferences a null pointer.\<close>

datatype 'a outcome = AssertFail | NullDeref | Ret 'a

subsection \<open>The packet table\<close>

record packet_table_entry =
  packet :: "uint8_t list"
  packet_size :: nat

type_synonym packet_table = "nat \<Rightarrow> packet_table_entry"

definition empty_entry :: packet_table_entry where
  "empty_entry = \<lparr>packet = replicate 512 0, packet_size = 0\<rparr>"

definition initial_packet_entries :: packet_table where
  "initial_packet_entries = (\<lambda>_. empty_entry)"

definition get_packet_entry :: "packet_table \<Rightarrow> uint16_t \<Rightarrow> packet_table_entry option" where
  "get_packet_entry packet_entries tag =
     (if unat tag \<ge> MAX_TAG then None else Some (packet_entries (unat tag)))"

definition release_packet_entry :: "packet_table \<Rightarrow> uint16_t \<Rightarrow> bool \<times> packet_table" where
  "release_packet_entry packet_entries tag =
     (if unat tag \<ge> MAX_TAG then (False, packet_entries)
      else (True, packet_entries(unat tag := (packet_entries (unat tag))\<lparr>packet_size := 0\<rparr>)))"

section \<open>The framing reader\<close>

text \<open>
  The receive side of the connection is the list of what the next iterations of the
  read loop will meet: the deadline has passed (\<open>Expire\<close>), \<^verbatim>\<open>read\<close> fails
  (\<open>Fail\<close>, the call returns \<open>-1\<close>), or bytes are available (\<open>Data\<close>). \<^verbatim>\<open>read\<close>
  delivers at most the count it is asked for; what it does not deliver stays
  available. An exhausted list is a closed connection: \<^verbatim>\<open>read\<close> returns \<open>0\<close>.
\<close>

datatype rd_event = Expire | Fail | Data "uint8_t list"

text \<open>One call of \<^verbatim>\<open>read\<close>: the index of the buffer it stores at, the count it is
  asked for, and what it returns.\<close>

type_synonym read_call = "nat \<times> nat \<times> int"

text \<open>
  The loop of \<^verbatim>\<open>wait_for_payload\<close>. The list \<open>buffer\<close> holds, in order, the bytes
  that \<^verbatim>\<open>read\<close> has stored from \<^verbatim>\<open>buffer[0]\<close> on, so that its length is
  \<^verbatim>\<open>total_bytes_read\<close>, also when the function gives up: \<^verbatim>\<open>read\<close> has stored its
  bytes before the overflow test looks at the count. A list longer than
  \<open>buffer_size\<close> means that bytes were stored past the end of the array.
\<close>

function wait_for_payload_loop ::
  "rd_event list \<Rightarrow> read_call list \<Rightarrow> uint8_t list \<Rightarrow> nat \<Rightarrow> nat \<Rightarrow>
   bool \<times> uint8_t list \<times> rd_event list \<times> read_call list"
where
  "wait_for_payload_loop sock calls buffer buffer_size payload_size =
     (if length buffer < payload_size then
        (case sock of
           [] \<Rightarrow> (False, buffer, [],
                  calls @ [(length buffer, payload_size - length buffer, 0)])
         | Expire # rest \<Rightarrow> (False, buffer, rest, calls)
         | Fail # rest \<Rightarrow> (False, buffer, rest,
                  calls @ [(length buffer, payload_size - length buffer, - 1)])
         | Data bs # rest \<Rightarrow>
             (let total_bytes_read = length buffer;
                  remaining_size = payload_size - total_bytes_read;
                  bytes_read = min (length bs) remaining_size;
                  calls' = calls @ [(total_bytes_read, remaining_size, int bytes_read)];
                  sock' = (if drop bytes_read bs = [] then rest
                           else Data (drop bytes_read bs) # rest)
              in if bytes_read \<le> 0 then (False, buffer, sock', calls')
                 else if bytes_read + total_bytes_read > buffer_size
                   then (False, buffer @ take bytes_read bs, sock', calls')
                 else wait_for_payload_loop sock' calls' (buffer @ take bytes_read bs)
                        buffer_size payload_size))
      else (True, buffer, sock, calls))"
  by pat_completeness auto
termination
  by (relation "measure (\<lambda>(sock, calls, buffer, buffer_size, payload_size).
                   payload_size - length buffer)")
    (auto simp: min_def neq_Nil_conv)

definition wait_for_payload ::
  "rd_event list \<Rightarrow> read_call list \<Rightarrow> nat \<Rightarrow> nat \<Rightarrow>
   bool \<times> uint8_t list \<times> rd_event list \<times> read_call list" where
  "wait_for_payload sock calls buffer_size payload_size =
     wait_for_payload_loop sock calls [] buffer_size payload_size"

definition wait_for_system_header ::
  "layout \<Rightarrow> rd_event list \<Rightarrow> read_call list \<Rightarrow> nat \<Rightarrow>
   bool \<times> uint8_t list \<times> rd_event list \<times> read_call list" where
  "wait_for_system_header L sock calls buffer_size =
     (let payload_size = sizeof_system_header_packet_t L
      in wait_for_payload sock calls buffer_size payload_size)"

definition get_next_tag :: uint16_t where
  "get_next_tag = 0"

text \<open>The state that \<^verbatim>\<open>process_incoming_packets\<close> works on: the global table, the
  receive side of the socket, the calls of \<^verbatim>\<open>read\<close> made so far, and the bytes
  stored from the start of the last local \<^verbatim>\<open>buffer\<close> (of \<open>MAX_PAYLOAD_SIZE\<close> bytes).\<close>

record rx_state =
  packet_entries :: packet_table
  sock_in :: "rd_event list"
  read_calls :: "read_call list"
  stack_buffer :: "uint8_t list"

text \<open>\<^verbatim>\<open>system_header->payload_length - system_header_size\<close> is computed in
  \<^verbatim>\<open>size_t\<close>: the difference modulo \<open>2 ^ 64\<close>.\<close>

definition size_t_sub :: "nat \<Rightarrow> nat \<Rightarrow> nat" where
  "size_t_sub a b = nat ((int a - int b) mod 2 ^ 64)"

definition process_incoming_packets :: "layout \<Rightarrow> rx_state \<Rightarrow> bool outcome \<times> rx_state" where
  "process_incoming_packets L s =
     (let buffer_size = MAX_PAYLOAD_SIZE
      in case wait_for_system_header L (sock_in s) (read_calls s) buffer_size of
        (False, hdr, sock1, calls1) \<Rightarrow>
           (Ret False, s\<lparr>sock_in := sock1, read_calls := calls1, stack_buffer := hdr\<rparr>)
      | (True, hdr, sock1, calls1) \<Rightarrow>
          (let payload_length = payload_length_of L hdr;
               system_header_size = sizeof_system_header_packet_t L;
               remaining_payload_size = size_t_sub payload_length system_header_size;
               buffer_offset = system_header_size;
               buffer_size' = size_t_sub buffer_size buffer_offset
           in case wait_for_payload sock1 calls1 buffer_size' remaining_payload_size of
             (False, payload, sock2, calls2) \<Rightarrow>
                (Ret False, s\<lparr>sock_in := sock2, read_calls := calls2,
                               stack_buffer := hdr @ payload\<rparr>)
           | (True, payload, sock2, calls2) \<Rightarrow>
               (let tag = 0;
                    s' = s\<lparr>sock_in := sock2, read_calls := calls2,
                           stack_buffer := hdr @ payload\<rparr>;
                    entry = packet_entries s tag
                in if packet_size entry \<noteq> 0 then (AssertFail, s')
                   else (Ret True,
                         s'\<lparr>packet_entries := (packet_entries s)
                              (tag := \<lparr>packet = take payload_length (hdr @ payload)
                                                 @ drop payload_length (packet entry),
                                       packet_size = payload_length\<rparr>)\<rparr>))))"


section \<open>The packet encoder\<close>

text \<open>
  Only the fields that the functions assign are modelled; each holds the value of the
  expression assigned to it. The enumerations list the constants that the source
  names.
\<close>

datatype payload_type_t = SIDEBAND | CXL_IO | CXL_MEM

datatype cxl_mem_channel_t = M2S_REQ | M2S_RWD

datatype cxl_mem_opcode_t = MEM_RD | MEM_WR

datatype cxl_io_fmt_type_t =
  MRD_32B | MRD_64B | MWR_32B | MWR_64B | CFG_RD0 | CFG_RD1 | CFG_WR0 | CFG_WR1

record system_header_packet_t =
  payload_type :: payload_type_t
  payload_length :: nat

record cxl_mem_m2s_header_t =
  mem_opcode :: cxl_mem_opcode_t
  addr :: uint64_t

record cxl_mem_m2s_rwd_packet_t =
  rwd_system_header :: system_header_packet_t
  rwd_cxl_mem_channel_t :: cxl_mem_channel_t
  m2s_rwd_header :: cxl_mem_m2s_header_t
  rwd_data :: "uint8_t list"


record cxl_io_header_t =
  fmt_type :: cxl_io_fmt_type_t
  length_upper :: uint16_t
  length_lower :: uint16_t

record cxl_io_mreq_header_t =
  mreq_req_id :: uint16_t
  mreq_tag :: uint16_t
  addr_lower :: uint64_t
  addr_upper :: uint64_t


record cxl_io_mem_wr_packet_32b_t =
  wr32_system_header :: system_header_packet_t
  wr32_cxl_io_header :: cxl_io_header_t
  wr32_mreq_header :: cxl_io_mreq_header_t
  wr32_data :: uint32_t

record cxl_io_mem_wr_packet_64b_t =
  wr64_system_header :: system_header_packet_t
  wr64_cxl_io_header :: cxl_io_header_t
  wr64_mreq_header :: cxl_io_mreq_header_t
  wr64_data :: uint64_t

datatype cxl_io_mem_wr_packet = Packet_32b cxl_io_mem_wr_packet_32b_t
  | Packet_64b cxl_io_mem_wr_packet_64b_t


record cxl_io_cfg_req_header_t =
  cfg_req_id :: uint16_t
  cfg_tag :: uint8_t
  first_dw_be :: uint8_t
  last_dw_be :: uint8_t
  dest_id :: uint16_t
  ext_reg_num :: uint32_t
  reg_num :: uint32_t

record cxl_io_cfg_rd_packet_t =
  cfg_rd_system_header :: system_header_packet_t
  cfg_rd_cxl_io_header :: cxl_io_header_t
  cfg_rd_req_header :: cxl_io_cfg_req_header_t

record cxl_io_cfg_wr_packet_t =
  cfg_wr_system_header :: system_header_packet_t
  cfg_wr_cxl_io_header :: cxl_io_header_t
  cfg_wr_req_header :: cxl_io_cfg_req_header_t
  cfg_wr_value :: uint32_t

text \<open>What a send function leaves behind: the tag it stored through its \<^verbatim>\<open>tag\<close>
  pointer, the packets it handed to \<^verbatim>\<open>write\<close>, and how it ended.\<close>

record 'p send_result =
  tag_out :: uint16_t
  written :: "'p list"
  result :: "bool outcome"

text \<open>Modelled from the spec: \<^verbatim>\<open>CXL_MEM_ACCESS_UNIT\<close> is a macro of the missing header;
  the spec gives the fixed CXL.mem access unit as 64 bytes.\<close>

definition CXL_MEM_ACCESS_UNIT :: nat where
  "CXL_MEM_ACCESS_UNIT = 64"


definition sizeof_cxl_mem_m2s_rwd_packet_t :: "layout \<Rightarrow> nat" where
  "sizeof_cxl_mem_m2s_rwd_packet_t L =
     sizeof_system_header_packet_t L + sizeof_cxl_mem_header_t L
       + sizeof_cxl_mem_m2s_rwd_header_t L + CXL_MEM_ACCESS_UNIT"

text \<open>Modelled from the spec: \<^verbatim>\<open>extract16\<close> and \<^verbatim>\<open>extract64\<close> come from
  \<^verbatim>\<open>qemu/bitops.h\<close>, \<^verbatim>\<open>htonll\<close> from \<^verbatim>\<open>hw/cxl/cxl_endian.h\<close>, neither among the
  sources. A field extraction takes \<open>length\<close> bits from bit \<open>start\<close> on; the
  conversions to network byte order reverse the bytes, the host being little-endian
  (\<^verbatim>\<open>htons\<close> is the C library's).\<close>

definition extract16 :: "uint16_t \<Rightarrow> nat \<Rightarrow> nat \<Rightarrow> uint16_t" where
  "extract16 v start len = take_bit len (drop_bit start v)"

definition extract64 :: "uint64_t \<Rightarrow> nat \<Rightarrow> nat \<Rightarrow> uint64_t" where
  "extract64 v start len = take_bit len (drop_bit start v)"

definition htons :: "uint16_t \<Rightarrow> uint16_t" where
  "htons x = push_bit 8 x OR drop_bit 8 x"

definition htonll :: "uint64_t \<Rightarrow> uint64_t" where
  "htonll x =
     push_bit 56 (x AND 0xFF) OR push_bit 40 (x AND 0xFF00)
     OR push_bit 24 (x AND 0xFF0000) OR push_bit 8 (x AND 0xFF000000)
     OR (drop_bit 8 x AND 0xFF000000) OR (drop_bit 24 x AND 0xFF0000)
     OR (drop_bit 40 x AND 0xFF00) OR (drop_bit 56 x AND 0xFF)"

definition EXTRACT_UPPER_2 :: "uint16_t \<Rightarrow> uint16_t" where
  "EXTRACT_UPPER_2 len = extract16 len 8 2"

definition EXTRACT_LOWER_8 :: "uint16_t \<Rightarrow> uint16_t" where
  "EXTRACT_LOWER_8 len = extract16 len 0 8"

definition EXTRACT_UPPER_56 :: "uint64_t \<Rightarrow> uint64_t" where
  "EXTRACT_UPPER_56 address = extract64 address 2 56"


text \<open>\<^verbatim>\<open>write(socket_fd, &packet, sizeof(packet)) != -1\<close>, for the value \<open>wr\<close> that
  \<^verbatim>\<open>write\<close> returns.\<close>

definition write_successful :: "int \<Rightarrow> bool" where
  "write_successful wr = (wr \<noteq> - 1)"

subsection \<open>CXL.mem\<close>

definition send_cxl_mem_mem_write ::
  "layout \<Rightarrow> int \<Rightarrow> hwaddr \<Rightarrow> uint8_t list \<Rightarrow> cxl_mem_m2s_rwd_packet_t send_result" where
  "send_cxl_mem_mem_write L wr hpa data =
     (let tag = get_next_tag;
          packet = \<lparr>rwd_system_header =
                      \<lparr>payload_type = CXL_MEM,
                       payload_length = sizeof_cxl_mem_m2s_rwd_packet_t L\<rparr>,
                    rwd_cxl_mem_channel_t = M2S_RWD,
                    m2s_rwd_header = \<lparr>mem_opcode = MEM_WR, addr = drop_bit 6 hpa\<rparr>,
                    rwd_data = take CXL_MEM_ACCESS_UNIT data\<rparr>
      in \<lparr>tag_out = tag, written = [packet], result = Ret (write_successful wr)\<rparr>)"


subsection \<open>CXL.io memory requests\<close>

definition round_up_to_nearest_dword :: "uint32_t \<Rightarrow> uint32_t" where
  "round_up_to_nearest_dword number =
     (let dword_size = 4 in (number + dword_size - 1) AND NOT (dword_size - 1))"

text \<open>\<^verbatim>\<open>uint16_t hdr_length = round_up_to_nearest_dword(size) / 4\<close>: the \<^verbatim>\<open>int\<close> is
  converted to \<^verbatim>\<open>uint32_t\<close>, the quotient to \<^verbatim>\<open>uint16_t\<close>.\<close>

definition hdr_length_of :: "int \<Rightarrow> uint16_t" where
  "hdr_length_of size' = ucast (round_up_to_nearest_dword (word_of_int size') div 4)"

text \<open>The four assignments to \<^verbatim>\<open>mreq_header\<close>, which \<^verbatim>\<open>send_cxl_io_mem_read\<close> and
  both branches of \<^verbatim>\<open>send_cxl_io_mem_write\<close> repeat word for word.\<close>

definition fill_mreq_header :: "hwaddr \<Rightarrow> uint16_t \<Rightarrow> cxl_io_mreq_header_t" where
  "fill_mreq_header hpa tag =
     \<lparr>mreq_req_id = 0, mreq_tag = tag,
      addr_lower = drop_bit 2 (hpa AND 0xFF),
      addr_upper = htonll hpa AND 0xFFFFFFFFFFFFFF\<rparr>"


definition send_cxl_io_mem_write ::
  "layout \<Rightarrow> int \<Rightarrow> hwaddr \<Rightarrow> uint64_t \<Rightarrow> int \<Rightarrow> cxl_io_mem_wr_packet send_result" where
  "send_cxl_io_mem_write L wr hpa val size' =
     (let tag = get_next_tag;
          aborted = \<lparr>tag_out = tag, written = [], result = AssertFail\<rparr>
      in if \<not> 4 dvd size' then aborted
         else
           (let hdr_length = hdr_length_of size'
            in if size' > 4 then
                 (if size' \<noteq> 8 then aborted
                  else if \<not> val < 0xFFFFFFFFFFFFFFFF then aborted
                  else
                    (let packet_64 =
                           \<lparr>wr64_system_header =
                              \<lparr>payload_type = CXL_IO,
                               payload_length = sizeof_cxl_io_mem_wr_packet_64b_t L\<rparr>,
                            wr64_cxl_io_header =
                              \<lparr>fmt_type = MWR_64B,
                               length_upper = EXTRACT_UPPER_2 hdr_length,
                               length_lower = EXTRACT_LOWER_8 hdr_length\<rparr>,
                            wr64_mreq_header = fill_mreq_header hpa tag,
                            wr64_data = val\<rparr>
                     in \<lparr>tag_out = tag, written = [Packet_64b packet_64],
                         result = Ret (write_successful wr)\<rparr>))
               else
                 (if size' \<noteq> 4 then aborted
                  else if \<not> val < 0xFFFFFFFF then aborted
                  else
                    (let packet =
                           \<lparr>wr32_system_header =
                              \<lparr>payload_type = CXL_IO,
                               payload_length = sizeof_cxl_io_mem_wr_packet_32b_t L\<rparr>,
                            wr32_cxl_io_header =
                              \<lparr>fmt_type = MWR_32B,
                               length_upper = EXTRACT_UPPER_2 hdr_length,
                               length_lower = EXTRACT_LOWER_8 hdr_length\<rparr>,
                            wr32_mreq_header = fill_mreq_header hpa tag,
                            wr32_data = ucast (val AND 0xFFFFFFFF)\<rparr>
                     in \<lparr>tag_out = tag, written = [Packet_32b packet],
                         result = Ret (write_successful wr)\<rparr>))))"


subsection \<open>CXL.io configuration requests\<close>

text \<open>The loop \<^verbatim>\<open>for (int i = 0; i < size; ++i)\<close> of \<^verbatim>\<open>fill_cxl_io_cfg_req_packet\<close>.
  The bit \<^verbatim>\<open>1 << offset\<close> is an \<^verbatim>\<open>int\<close>; the assignment keeps its low eight bits.\<close>

function first_dw_be_loop :: "nat \<Rightarrow> nat \<Rightarrow> uint8_t \<Rightarrow> uint8_t \<Rightarrow> uint8_t" where
  "first_dw_be_loop i size' first_dw_be' offset =
     (if i < size'
      then first_dw_be_loop (i + 1) size' (first_dw_be' OR push_bit (unat offset) 1) (offset + 1)
      else first_dw_be')"
  by pat_completeness auto
termination
  by (relation "measure (\<lambda>(i, size', first_dw_be', offset). size' - i)") auto

definition fill_cxl_io_cfg_req_packet ::
  "cxl_io_cfg_req_header_t \<Rightarrow> uint16_t \<Rightarrow> uint32_t \<Rightarrow> uint8_t \<Rightarrow> uint16_t \<Rightarrow> uint8_t \<Rightarrow>
   bool \<times> cxl_io_cfg_req_header_t" where
  "fill_cxl_io_cfg_req_packet header id' cfg_addr size' req_id tag =
     (if cfg_addr > 0xFFF then (False, header)
      else
        (let offset = (ucast (cfg_addr AND 0x03) :: uint8_t)
         in if unat offset + unat size' > 4 then (False, header)
            else
              (let first_dw_be = first_dw_be_loop 0 (unat size') 0 offset
               in (True,
                   header\<lparr>cfg_req_id := htons req_id,
                          cfg_tag := tag,
                          first_dw_be := first_dw_be,
                          last_dw_be := 0,
                          dest_id := htons id',
                          ext_reg_num := drop_bit 8 cfg_addr AND 0xF,
                          reg_num := drop_bit 2 cfg_addr AND 0x3F\<rparr>))))"

text \<open>The request header of a packet initialised with \<^verbatim>\<open>= {}\<close>.\<close>

definition zero_cfg_req_header :: cxl_io_cfg_req_header_t where
  "zero_cfg_req_header =
     \<lparr>cfg_req_id = 0, cfg_tag = 0, first_dw_be = 0, last_dw_be = 0, dest_id = 0,
      ext_reg_num = 0, reg_num = 0\<rparr>"

text \<open>Both functions call \<^verbatim>\<open>fill_cxl_io_cfg_req_packet\<close> as a statement: what it
  returns is dropped. Its \<^verbatim>\<open>uint8_t size\<close> and \<^verbatim>\<open>uint8_t tag\<close> parameters receive the
  \<^verbatim>\<open>int\<close> and the \<^verbatim>\<open>uint16_t\<close> converted.\<close>

definition send_cxl_io_config_space_read ::
  "layout \<Rightarrow> int \<Rightarrow> uint16_t \<Rightarrow> uint32_t \<Rightarrow> int \<Rightarrow> bool \<Rightarrow> cxl_io_cfg_rd_packet_t send_result" where
  "send_cxl_io_config_space_read L wr bdf offset size' type0 =
     (let tag = get_next_tag;
          (filled, cfg_req_header) =
             fill_cxl_io_cfg_req_packet zero_cfg_req_header bdf offset (word_of_int size') 0
               (ucast tag);
          packet = \<lparr>cfg_rd_system_header =
                      \<lparr>payload_type = CXL_IO,
                       payload_length = sizeof_cxl_io_cfg_rd_packet_t L\<rparr>,
                    cfg_rd_cxl_io_header =
                      \<lparr>fmt_type = (if type0 then CFG_RD0 else CFG_RD1),
                       length_upper = 0, length_lower = 1\<rparr>,
                    cfg_rd_req_header = cfg_req_header\<rparr>
      in \<lparr>tag_out = tag, written = [packet], result = Ret (write_successful wr)\<rparr>)"

definition send_cxl_io_config_space_write ::
  "layout \<Rightarrow> int \<Rightarrow> uint16_t \<Rightarrow> uint32_t \<Rightarrow> uint32_t \<Rightarrow> int \<Rightarrow> bool \<Rightarrow>
   cxl_io_cfg_wr_packet_t send_result" where
  "send_cxl_io_config_space_write L wr bdf offset val size' type0 =
     (let tag = get_next_tag;
          (filled, cfg_req_header) =
             fill_cxl_io_cfg_req_packet zero_cfg_req_header bdf offset (word_of_int size') 0
               (ucast tag);
          packet = \<lparr>cfg_wr_system_header =
                      \<lparr>payload_type = CXL_IO,
                       payload_length = sizeof_cxl_io_cfg_wr_packet_t L\<rparr>,
                    cfg_wr_cxl_io_header =
                      \<lparr>fmt_type = (if type0 then CFG_WR0 else CFG_WR1),
                       length_upper = 0, length_lower = 1\<rparr>,
                    cfg_wr_req_header = cfg_req_header,
                    cfg_wr_value = val\<rparr>
      in \<lparr>tag_out = tag, written = [packet], result = Ret (write_successful wr)\<rparr>)"

section \<open>The transaction correlator\<close>

text \<open>
  Each wait function is a \<^verbatim>\<open>while (true)\<close> loop; the result \<open>None\<close> of the model is
  a loop that never ends. A returned pointer into the table is the entry's bytes,
  \<^verbatim>\<open>NULL\<close> is \<open>None\<close>. An entry that is \<^verbatim>\<open>NULL\<close> (a tag of \<open>MAX_TAG\<close> or more) is
  dereferenced without a test.
\<close>

partial_function (option) wait_for_base_sideband_packet ::
  "layout \<Rightarrow> rx_state \<Rightarrow> (uint8_t list option outcome \<times> rx_state) option" where
  "wait_for_base_sideband_packet L s =
     (case get_packet_entry (packet_entries s) 0 of
        None \<Rightarrow> Some (NullDeref, s)
      | Some entry \<Rightarrow>
          if packet_size entry = sizeof_base_sideband_packet_t L
          then Some (Ret (Some (packet entry)), s)
          else (case process_incoming_packets L s of
                  (r, s') \<Rightarrow>
                    (case r of
                       Ret ok \<Rightarrow>
                         if ok then wait_for_base_sideband_packet L s'
                         else Some (Ret None, s')
                     | AssertFail \<Rightarrow> Some (AssertFail, s')
                     | NullDeref \<Rightarrow> Some (NullDeref, s'))))"

partial_function (option) wait_for_cxl_mem_completion ::
  "layout \<Rightarrow> rx_state \<Rightarrow> uint16_t \<Rightarrow> (uint8_t list option outcome \<times> rx_state) option" where
  "wait_for_cxl_mem_completion L s tag =
     (case get_packet_entry (packet_entries s) tag of
        None \<Rightarrow> Some (NullDeref, s)
      | Some entry \<Rightarrow>
          if packet_size entry = sizeof_cxl_mem_s2m_ndr_packet_t L
          then Some (Ret (Some (packet entry)), s)
          else (case process_incoming_packets L s of
                  (r, s') \<Rightarrow>
                    (case r of
                       Ret ok \<Rightarrow>
                         if ok then wait_for_cxl_mem_completion L s' tag
                         else Some (Ret None, s')
                     | AssertFail \<Rightarrow> Some (AssertFail, s')
                     | NullDeref \<Rightarrow> Some (NullDeref, s'))))"

partial_function (option) wait_for_cxl_mem_mem_data ::
  "layout \<Rightarrow> rx_state \<Rightarrow> uint16_t \<Rightarrow> (uint8_t list option outcome \<times> rx_state) option" where
  "wait_for_cxl_mem_mem_data L s tag =
     (case get_packet_entry (packet_entries s) tag of
        None \<Rightarrow> Some (NullDeref, s)
      | Some entry \<Rightarrow>
          if packet_size entry = sizeof_cxl_mem_s2m_drs_packet_t L
          then Some (Ret (Some (packet entry)), s)
          else (case process_incoming_packets L s of
                  (r, s') \<Rightarrow>
                    (case r of
                       Ret ok \<Rightarrow>
                         if ok then wait_for_cxl_mem_mem_data L s' tag
                         else Some (Ret None, s')
                     | AssertFail \<Rightarrow> Some (AssertFail, s')
                     | NullDeref \<Rightarrow> Some (NullDeref, s'))))"

partial_function (option) wait_for_cxl_io_completion ::
  "layout \<Rightarrow> rx_state \<Rightarrow> uint16_t \<Rightarrow> (uint8_t list option outcome \<times> rx_state) option" where
  "wait_for_cxl_io_completion L s tag =
     (case get_packet_entry (packet_entries s) tag of
        None \<Rightarrow> Some (NullDeref, s)
      | Some entry \<Rightarrow>
          if packet_size entry > 0
          then (if packet_size entry \<noteq> sizeof_cxl_io_completion_packet_t L
                then Some (AssertFail, s)
                else Some (Ret (Some (packet entry)), s))
          else (case process_incoming_packets L s of
                  (r, s') \<Rightarrow>
                    (case r of
                       Ret ok \<Rightarrow>
                         if ok then wait_for_cxl_io_completion L s' tag
                         else Some (Ret None, s')
                     | AssertFail \<Rightarrow> Some (AssertFail, s')
                     | NullDeref \<Rightarrow> Some (NullDeref, s'))))"

text \<open>Returns the packet size (0 when the wait is abandoned) and the value left in
  \<^verbatim>\<open>*data\<close>.\<close>

partial_function (option) wait_for_cxl_io_completion_data ::
  "layout \<Rightarrow> rx_state \<Rightarrow> uint16_t \<Rightarrow> uint64_t \<Rightarrow>
   ((uint64_t \<times> uint64_t) outcome \<times> rx_state) option" where
  "wait_for_cxl_io_completion_data L s tag data =
     (case get_packet_entry (packet_entries s) tag of
        None \<Rightarrow> Some (NullDeref, s)
      | Some entry \<Rightarrow>
          if packet_size entry > 0
          then (if \<not> (packet_size entry = sizeof_cxl_io_completion_data_packet_32b_t L
                       \<or> packet_size entry = sizeof_cxl_io_completion_data_packet_64b_t L)
                then Some (AssertFail, s)
                else if packet_size entry = sizeof_cxl_io_completion_data_packet_32b_t L
                then Some (Ret (of_nat (packet_size entry),
                                ucast (completion_data_32b_of L (packet entry))), s)
                else Some (Ret (of_nat (packet_size entry),
                                completion_data_64b_of L (packet entry)), s))
          else (case process_incoming_packets L s of
                  (r, s') \<Rightarrow>
                    (case r of
                       Ret ok \<Rightarrow>
                         if ok then wait_for_cxl_io_completion_data L s' tag data
                         else Some (Ret (0, data), s')
                     | AssertFail \<Rightarrow> Some (AssertFail, s')
                     | NullDeref \<Rightarrow> Some (NullDeref, s'))))"

text \<open>The argument \<open>data\<close> is the pointer: \<open>None\<close> for \<^verbatim>\<open>NULL\<close>, else the value it
  points to; the function returns the value it leaves there.\<close>

partial_function (option) wait_for_cxl_io_cfg_completion ::
  "layout \<Rightarrow> rx_state \<Rightarrow> uint16_t \<Rightarrow> uint32_t option \<Rightarrow>
   (uint32_t option outcome \<times> rx_state) option" where
  "wait_for_cxl_io_cfg_completion L s tag data =
     (case get_packet_entry (packet_entries s) tag of
        None \<Rightarrow> Some (NullDeref, s)
      | Some entry \<Rightarrow>
          if packet_size entry > 0
          then (if (if data = None
                    then packet_size entry \<noteq> sizeof_cxl_io_completion_packet_t L
                    else \<not> (packet_size entry = sizeof_cxl_io_completion_packet_t L
                            \<or> packet_size entry
                                = sizeof_cxl_io_completion_data_packet_32b_t L))
                then Some (AssertFail, s)
                else if packet_size entry = sizeof_cxl_io_completion_packet_t L
                then Some (Ret (if data \<noteq> None then Some 0xFFFFFFFF else data), s)
                else if data = None then Some (NullDeref, s)
                else Some (Ret (Some (completion_data_32b_of L (packet entry))), s))
          else (case process_incoming_packets L s of
                  (r, s') \<Rightarrow>
                    (case r of
                       Ret ok \<Rightarrow>
                         if ok then wait_for_cxl_io_cfg_completion L s' tag data
                         else Some (Ret data, s')
                     | AssertFail \<Rightarrow> Some (AssertFail, s')
                     | NullDeref \<Rightarrow> Some (NullDeref, s'))))"


section \<open>A concrete layout\<close>

text \<open>
  One instance of the parameters, for running the functions on concrete inputs: a
  two-byte system header whose little-endian 16-bit value holds the payload type in
  bits 0 to 3 and the payload length in bits 4 to 15, packed structures, and the data
  of a completion in its last four or eight bytes. The theorems below that mention
  \<open>example_layout\<close> are evaluations; the general ones hold for every layout.
\<close>

fun example_payload_length_of :: "uint8_t list \<Rightarrow> nat" where
  "example_payload_length_of (b0 # b1 # bs) = unat b0 div 16 + 16 * unat b1"
| "example_payload_length_of bs = 0"

definition example_layout :: layout where
  "example_layout =
     \<lparr>sizeof_system_header_packet_t = 2,
      payload_length_of = example_payload_length_of,
      sizeof_base_sideband_packet_t = 3,
      sizeof_cxl_mem_header_t = 1,
      sizeof_cxl_mem_m2s_req_header_t = 13,
      sizeof_cxl_mem_m2s_rwd_header_t = 13,
      sizeof_cxl_mem_s2m_ndr_packet_t = 8,
      sizeof_cxl_mem_s2m_drs_packet_t = 72,
      sizeof_cxl_io_mem_rd_packet_t = 18,
      sizeof_cxl_io_mem_wr_packet_32b_t = 22,
      sizeof_cxl_io_mem_wr_packet_64b_t = 26,
      sizeof_cxl_io_cfg_rd_packet_t = 14,
      sizeof_cxl_io_cfg_wr_packet_t = 18,
      sizeof_cxl_io_completion_packet_t = 14,
      sizeof_cxl_io_completion_data_packet_32b_t = 18,
      sizeof_cxl_io_completion_data_packet_64b_t = 22,
      completion_data_32b_of = (\<lambda>bs. word_rcat (rev (take 4 (drop 14 bs)))),
      completion_data_64b_of = (\<lambda>bs. word_rcat (rev (take 8 (drop 14 bs))))\<rparr>"

text \<open>A receiver that has read nothing yet: every entry of the table empty.\<close>

definition fresh_rx :: "rd_event list \<Rightarrow> rx_state" where
  "fresh_rx sock =
     \<lparr>packet_entries = initial_packet_entries, sock_in = sock, read_calls = [],
      stack_buffer = []\<rparr>"


section \<open>Properties of the framing reader\<close>

lemma wait_for_payload_loop_True:
  "wait_for_payload_loop sock calls buffer bsz psz = (True, b', sock', calls') \<Longrightarrow>
   length buffer \<le> psz \<Longrightarrow>
   length b' = psz \<and> (length buffer < psz \<longrightarrow> psz \<le> bsz)"
proof (induction sock calls buffer bsz psz rule: wait_for_payload_loop.induct)
  case (1 sock calls buffer bsz psz)
  show ?case
  proof (cases "length buffer < psz")
    case False
    with "1.prems" show ?thesis by simp
  next
    case True
    note lt = this
    show ?thesis
    proof (cases sock)
      case Nil
      with lt "1.prems" show ?thesis by simp
    next
      case (Cons ev rest)
      show ?thesis
      proof (cases ev)
        case Expire
        with Cons lt "1.prems" show ?thesis by simp
      next
        case Fail
        with Cons lt "1.prems" show ?thesis by simp
      next
        case (Data bs)
        let ?n = "min (length bs) (psz - length buffer)"
        let ?sock' = "if drop ?n bs = [] then rest else Data (drop ?n bs) # rest"
        let ?calls' = "calls @ [(length buffer, psz - length buffer, int ?n)]"
        from "1.prems"(1) lt Cons Data
        have ok: "0 < ?n" "?n + length buffer \<le> bsz"
          and rec: "wait_for_payload_loop ?sock' ?calls' (buffer @ take ?n bs) bsz psz
                    = (True, b', sock', calls')"
          by (auto simp: Let_def split: if_splits)
        have len: "length (buffer @ take ?n bs) = length buffer + ?n" by simp
        have le: "length (buffer @ take ?n bs) \<le> psz" using lt by simp
        have "length b' = psz \<and> (length (buffer @ take ?n bs) < psz \<longrightarrow> psz \<le> bsz)"
          using "1.IH"[OF lt Cons Data refl refl refl refl refl _ _ rec le] ok by simp
        moreover have "length (buffer @ take ?n bs) = psz \<Longrightarrow> psz \<le> bsz"
          using ok len by linarith
        ultimately show ?thesis using le by (cases "length (buffer @ take ?n bs) < psz") auto
      qed
    qed
  qed
qed


lemma wait_for_payload_loop_calls:
  "\<exists>ys. snd (snd (snd (wait_for_payload_loop sock calls buffer bsz psz))) = calls @ ys"
proof (induction sock calls buffer bsz psz rule: wait_for_payload_loop.induct)
  case (1 sock calls buffer bsz psz)
  show ?case
  proof (cases "length buffer < psz")
    case False
    then show ?thesis by simp
  next
    case True
    note lt = this
    show ?thesis
    proof (cases sock)
      case Nil
      with lt show ?thesis by simp
    next
      case (Cons ev rest)
      show ?thesis
      proof (cases ev)
        case Expire
        with Cons lt show ?thesis by simp
      next
        case Fail
        with Cons lt show ?thesis by simp
      next
        case (Data bs)
        let ?n = "min (length bs) (psz - length buffer)"
        let ?sock' = "if drop ?n bs = [] then rest else Data (drop ?n bs) # rest"
        let ?calls' = "calls @ [(length buffer, psz - length buffer, int ?n)]"
        show ?thesis
        proof (cases "?n \<le> 0 \<or> bsz < ?n + length buffer")
          case True
          with lt Cons Data show ?thesis by (auto simp: Let_def)
        next
          case False
          then have a: "\<not> ?n \<le> 0" and b: "\<not> bsz < ?n + length buffer" by auto
          from "1.IH"[OF lt Cons Data refl refl refl refl refl a b]
          obtain ys where
            "snd (snd (snd (wait_for_payload_loop ?sock' ?calls' (buffer @ take ?n bs) bsz psz)))
               = ?calls' @ ys" by blast
          with lt Cons Data a b show ?thesis by (simp add: Let_def)
        qed
      qed
    qed
  qed
qed

lemma wait_for_payload_first_read:
  assumes "0 < psz" and "\<forall>rest. sock \<noteq> Expire # rest"
  shows "\<exists>ret ys. snd (snd (snd (wait_for_payload sock calls bsz psz)))
           = calls @ (0, psz, ret) # ys"
proof (cases sock)
  case Nil
  with assms show ?thesis by (simp add: wait_for_payload_def)
next
  case (Cons ev rest)
  show ?thesis
  proof (cases ev)
    case Expire
    with Cons assms show ?thesis by simp
  next
    case Fail
    with Cons assms show ?thesis by (simp add: wait_for_payload_def)
  next
    case (Data bs)
    let ?n = "min (length bs) psz"
    let ?sock' = "if drop ?n bs = [] then rest else Data (drop ?n bs) # rest"
    let ?calls' = "calls @ [(0, psz, int ?n)]"
    obtain ys where ys:
      "snd (snd (snd (wait_for_payload_loop ?sock' ?calls' ([] @ take ?n bs) bsz psz)))
         = ?calls' @ ys"
      using wait_for_payload_loop_calls by blast
    show ?thesis
      using Cons Data assms(1) ys
      by (cases "?n \<le> 0 \<or> bsz < ?n") (auto simp: wait_for_payload_def Let_def)
  qed
qed



lemma sub_mod_ge:
  fixes M :: nat
  assumes "b \<le> a" and "a < M"
  shows "nat ((int a - int b) mod int M) = a - b"
proof -
  have "int a - int b = int (a - b)" using assms(1) by simp
  moreover have "(a - b) mod M = a - b" using assms by simp
  ultimately have "(int a - int b) mod int M = int (a - b)"
    by (metis zmod_int)
  then show ?thesis by simp
qed

lemma sub_mod_lt:
  fixes M :: nat
  assumes "a < b" and "b \<le> M"
  shows "nat ((int a - int b) mod int M) = M - (b - a)"
proof -
  have "(int a - int b) mod int M = (int a - int b + int M) mod int M" by simp
  moreover have "int a - int b + int M = int (M - (b - a))" using assms by simp
  moreover have "(M - (b - a)) mod M = M - (b - a)" using assms by simp
  ultimately have "(int a - int b) mod int M = int (M - (b - a))"
    by (metis zmod_int)
  then show ?thesis by simp
qed

lemma int_2_64: "(2::int) ^ 64 = int (2 ^ 64)"
  by simp

lemma size_t_sub_ge: "b \<le> a \<Longrightarrow> a < 2 ^ 64 \<Longrightarrow> size_t_sub a b = a - b"
  unfolding size_t_sub_def int_2_64 by (rule sub_mod_ge)

lemma size_t_sub_lt: "a < b \<Longrightarrow> b \<le> 2 ^ 64 \<Longrightarrow> size_t_sub a b = 2 ^ 64 - (b - a)"
  unfolding size_t_sub_def int_2_64 by (rule sub_mod_lt)


lemma wait_for_payload_True:
  assumes "wait_for_payload sock calls bsz psz = (True, b', sock', calls')"
  shows "length b' = psz \<and> psz \<le> bsz"
proof -
  from assms have "wait_for_payload_loop sock calls [] bsz psz = (True, b', sock', calls')"
    by (simp add: wait_for_payload_def)
  from wait_for_payload_loop_True[OF this] show ?thesis by (cases "0 < psz") auto
qed

lemma process_incoming_packets_True:
  assumes ok: "fst (process_incoming_packets L s) = Ret True"
    and hsz: "sizeof_system_header_packet_t L \<le> MAX_PAYLOAD_SIZE"
    and bound: "\<forall>bs. payload_length_of L bs < 2 ^ 64"
  shows "\<exists>hdr payload.
           stack_buffer (snd (process_incoming_packets L s)) = hdr @ payload
         \<and> length hdr = sizeof_system_header_packet_t L
         \<and> length (hdr @ payload) = payload_length_of L hdr
         \<and> sizeof_system_header_packet_t L \<le> payload_length_of L hdr
         \<and> payload_length_of L hdr \<le> MAX_PAYLOAD_SIZE
         \<and> packet_size (packet_entries s 0) = 0
         \<and> packet_entries (snd (process_incoming_packets L s)) =
             (packet_entries s)(0 := \<lparr>packet = hdr @ payload @ drop (payload_length_of L hdr) (packet (packet_entries s 0)),
                                     packet_size = payload_length_of L hdr\<rparr>)"
proof -
  let ?h = "sizeof_system_header_packet_t L"
  obtain r1 hdr sock1 calls1 where w1:
    "wait_for_system_header L (sock_in s) (read_calls s) MAX_PAYLOAD_SIZE = (r1, hdr, sock1, calls1)"
    by (metis prod_cases4)
  have r1: "r1" using ok w1 by (cases r1) (auto simp: process_incoming_packets_def Let_def)
  let ?len = "payload_length_of L hdr"
  obtain r2 payload sock2 calls2 where w2:
    "wait_for_payload sock1 calls1 (size_t_sub MAX_PAYLOAD_SIZE ?h) (size_t_sub ?len ?h)
       = (r2, payload, sock2, calls2)"
    by (metis prod_cases4)
  have r2: "r2" using ok w1 w2 r1 by (cases r2) (auto simp: process_incoming_packets_def Let_def)
  have empty: "packet_size (packet_entries s 0) = 0"
    using ok w1 w2 r1 r2 by (auto simp: process_incoming_packets_def Let_def split: if_splits)
  have lh: "length hdr = ?h"
    using wait_for_payload_True[of "sock_in s" "read_calls s" MAX_PAYLOAD_SIZE ?h hdr sock1 calls1] w1 r1
    by (simp add: wait_for_system_header_def)
  have lp: "length payload = size_t_sub ?len ?h" "size_t_sub ?len ?h \<le> size_t_sub MAX_PAYLOAD_SIZE ?h"
    using wait_for_payload_True[of sock1 calls1 _ _ payload sock2 calls2] w2 r2 by auto
  have cap: "size_t_sub MAX_PAYLOAD_SIZE ?h = MAX_PAYLOAD_SIZE - ?h"
    using hsz by (intro size_t_sub_ge) (auto simp: MAX_PAYLOAD_SIZE_def)
  have ge: "?h \<le> ?len"
  proof (rule ccontr)
    assume "\<not> ?h \<le> ?len"
    then have lt: "?len < ?h" by simp
    have "size_t_sub ?len ?h = 2 ^ 64 - (?h - ?len)"
      using lt hsz by (intro size_t_sub_lt) (auto simp: MAX_PAYLOAD_SIZE_def)
    with lp(2) cap hsz show False by (simp add: MAX_PAYLOAD_SIZE_def)
  qed
  have rem: "size_t_sub ?len ?h = ?len - ?h" using ge bound by (intro size_t_sub_ge) auto
  have le: "?len \<le> MAX_PAYLOAD_SIZE" using lp(2) cap rem ge hsz by simp
  have tot: "length (hdr @ payload) = ?len" using lh lp(1) rem ge by simp
  have "snd (process_incoming_packets L s) =
          s\<lparr>sock_in := sock2, read_calls := calls2, stack_buffer := hdr @ payload,
            packet_entries := (packet_entries s)
              (0 := \<lparr>packet = take ?len (hdr @ payload) @ drop ?len (packet (packet_entries s 0)),
                     packet_size = ?len\<rparr>)\<rparr>"
    using w1 w2 r1 r2 empty by (simp add: process_incoming_packets_def Let_def)
  then show ?thesis using lh tot ge le empty by (intro exI[of _ hdr] exI[of _ payload]) simp
qed

lemma process_incoming_packets_occupied:
  assumes "packet_size (packet_entries s 0) \<noteq> 0"
  shows "fst (process_incoming_packets L s) \<noteq> Ret True"
    and "packet_entries (snd (process_incoming_packets L s)) = packet_entries s"
    and "fst (process_incoming_packets L (s\<lparr>packet_entries := snd (release_packet_entry (packet_entries s) 0)\<rparr>)) = Ret True
          \<Longrightarrow> fst (process_incoming_packets L s) = AssertFail"
  using assms
  by (auto simp: process_incoming_packets_def Let_def release_packet_entry_def MAX_TAG_def split: prod.splits bool.splits if_splits)



lemma process_incoming_packets_oversize_fails:
  assumes hsz: "sizeof_system_header_packet_t L \<le> MAX_PAYLOAD_SIZE"
    and bound: "payload_length_of L hdr < 2 ^ 64"
    and w1: "wait_for_system_header L (sock_in s) (read_calls s) MAX_PAYLOAD_SIZE
               = (True, hdr, sock1, calls1)"
    and over: "MAX_PAYLOAD_SIZE < payload_length_of L hdr"
  shows "fst (process_incoming_packets L s) = Ret False"
proof -
  let ?h = "sizeof_system_header_packet_t L"
  let ?len = "payload_length_of L hdr"
  obtain r2 payload sock2 calls2 where w2:
    "wait_for_payload sock1 calls1 (size_t_sub MAX_PAYLOAD_SIZE ?h) (size_t_sub ?len ?h)
       = (r2, payload, sock2, calls2)"
    by (metis prod_cases4)
  have cap: "size_t_sub MAX_PAYLOAD_SIZE ?h = MAX_PAYLOAD_SIZE - ?h"
    using hsz by (intro size_t_sub_ge) (auto simp: MAX_PAYLOAD_SIZE_def)
  have rem: "size_t_sub ?len ?h = ?len - ?h"
    using hsz over bound by (intro size_t_sub_ge) auto
  have "\<not> r2"
  proof
    assume r2
    with wait_for_payload_True[of sock1 calls1 _ _ payload sock2 calls2] w2
    have "size_t_sub ?len ?h \<le> size_t_sub MAX_PAYLOAD_SIZE ?h" by auto
    with cap rem hsz over show False by simp
  qed
  with w1 w2 show ?thesis by (simp add: process_incoming_packets_def Let_def)
qed

lemma oversize_fails_example:
  "fst (process_incoming_packets example_layout
          (fresh_rx [Data ([0x01, 0x40] @ replicate 600 0xAA)])) = Ret False"
proof -
  have a: "sizeof_system_header_packet_t example_layout \<le> MAX_PAYLOAD_SIZE"
    by (simp add: example_layout_def MAX_PAYLOAD_SIZE_def)
  have b: "payload_length_of example_layout [0x01, 0x40] < 2 ^ 64"
    by (simp add: example_layout_def)
  have c: "wait_for_system_header example_layout
             (sock_in (fresh_rx [Data ([0x01, 0x40] @ replicate 600 0xAA)]))
             (read_calls (fresh_rx [Data ([0x01, 0x40] @ replicate 600 0xAA)])) MAX_PAYLOAD_SIZE
           = (True, [0x01, 0x40], [Data (replicate 600 0xAA)], [(0, 2, 2)])"
    by (simp add: fresh_rx_def wait_for_system_header_def wait_for_payload_def
          example_layout_def MAX_PAYLOAD_SIZE_def Let_def)
  have d: "MAX_PAYLOAD_SIZE < payload_length_of example_layout [0x01, 0x40]"
    by (simp add: example_layout_def MAX_PAYLOAD_SIZE_def)
  from process_incoming_packets_oversize_fails[OF a b c d] show ?thesis .
qed

lemma first_store:
  "process_incoming_packets example_layout
     (fresh_rx [Data [0x82, 0, 1, 2, 3, 4, 5, 6], Data [0x82, 0, 1, 2, 3, 4, 5, 6]])
   = (Ret True,
      \<lparr>packet_entries = initial_packet_entries
          (0 := \<lparr>packet = [0x82, 0, 1, 2, 3, 4, 5, 6] @ replicate 504 0, packet_size = 8\<rparr>),
       sock_in = [Data [0x82, 0, 1, 2, 3, 4, 5, 6]],
       read_calls = [(0, 2, 2), (0, 6, 6)],
       stack_buffer = [0x82, 0, 1, 2, 3, 4, 5, 6]\<rparr>)"
  by (simp add: process_incoming_packets_def fresh_rx_def wait_for_system_header_def
        wait_for_payload_def example_layout_def MAX_PAYLOAD_SIZE_def size_t_sub_def Let_def
        initial_packet_entries_def empty_entry_def)


section \<open>The claims about the framing reader and the packet table\<close>

text \<open>
  Claim C1. A system header that declares more than \<open>MAX_PAYLOAD_SIZE\<close> bytes makes
  \<^verbatim>\<open>process_incoming_packets\<close> return false (lemma
  \<open>process_incoming_packets_oversize_fails\<close> above), but not before bytes are stored
  past the buffer: \<^verbatim>\<open>wait_for_payload\<close>
  asks \<^verbatim>\<open>read\<close> for all that is still missing of the payload and compares the
  count with \<open>buffer_size\<close> only after \<^verbatim>\<open>read\<close> has stored the bytes. Here the
  header declares 1024 bytes and the peer has 600 more bytes ready: the second
  \<^verbatim>\<open>read\<close> is asked for 1022 bytes at \<^verbatim>\<open>&buffer[2]\<close>, stores 600 of them, and the
  function returns false with 602 bytes stored in the 512-byte array.
\<close>

theorem C1_bytes_stored_before_overflow_test:
  "process_incoming_packets example_layout
     (fresh_rx [Data ([0x01, 0x40] @ replicate 600 0xAA)])
   = (Ret False,
      \<lparr>packet_entries = initial_packet_entries, sock_in = [],
       read_calls = [(0, 2, 2), (0, 1022, 600)],
       stack_buffer = [0x01, 0x40] @ replicate 600 0xAA\<rparr>)
   \<and> payload_length_of example_layout [0x01, 0x40] = 1024
   \<and> MAX_PAYLOAD_SIZE < length ([0x01, 0x40] @ replicate 600 (0xAA :: uint8_t))"
  by (simp add: process_incoming_packets_def fresh_rx_def wait_for_system_header_def
        wait_for_payload_def example_layout_def MAX_PAYLOAD_SIZE_def size_t_sub_def Let_def)

text \<open>
  Claim C4. \<^verbatim>\<open>process_incoming_packets\<close> is the only writer of the table and writes
  slot 0. When slot 0 is occupied (its length is not 0) the function never returns
  true and leaves the table as it was; and whenever the same receive would have
  stored its packet had the slot been released, the process ends in the failed
  assertion.
\<close>

theorem C4_store_into_occupied_slot_is_fatal:
  assumes "packet_size (packet_entries s 0) \<noteq> 0"
  shows "fst (process_incoming_packets L s) \<noteq> Ret True
       \<and> packet_entries (snd (process_incoming_packets L s)) = packet_entries s
       \<and> (fst (process_incoming_packets L
                 (s\<lparr>packet_entries := snd (release_packet_entry (packet_entries s) 0)\<rparr>))
            = Ret True
          \<longrightarrow> fst (process_incoming_packets L s) = AssertFail)"
  using process_incoming_packets_occupied[OF assms] by blast

text \<open>Two packets of eight bytes arrive; the first is stored, the second, with no
  release in between, ends in the assertion.\<close>

theorem C4_second_store_witness:
  "fst (process_incoming_packets example_layout
          (fresh_rx [Data [0x82, 0, 1, 2, 3, 4, 5, 6], Data [0x82, 0, 1, 2, 3, 4, 5, 6]]))
     = Ret True
   \<and> fst (process_incoming_packets example_layout
            (snd (process_incoming_packets example_layout
               (fresh_rx [Data [0x82, 0, 1, 2, 3, 4, 5, 6], Data [0x82, 0, 1, 2, 3, 4, 5, 6]]))))
     = AssertFail
   \<and> packet_entries (snd (process_incoming_packets example_layout
            (snd (process_incoming_packets example_layout
               (fresh_rx [Data [0x82, 0, 1, 2, 3, 4, 5, 6], Data [0x82, 0, 1, 2, 3, 4, 5, 6]])))))
     = packet_entries (snd (process_incoming_packets example_layout
               (fresh_rx [Data [0x82, 0, 1, 2, 3, 4, 5, 6], Data [0x82, 0, 1, 2, 3, 4, 5, 6]])))"
proof -
  let ?s1 = "\<lparr>packet_entries = initial_packet_entries
          (0 := \<lparr>packet = [0x82, 0, 1, 2, 3, 4, 5, 6] @ replicate 504 0, packet_size = 8\<rparr>),
       sock_in = [Data [0x82, 0, 1, 2, 3, 4, 5, 6]],
       read_calls = [(0, 2, 2), (0, 6, 6)],
       stack_buffer = [0x82 :: uint8_t, 0, 1, 2, 3, 4, 5, 6]\<rparr>"
  have occupied: "packet_size (packet_entries ?s1 0) \<noteq> 0" by simp
  have released: "fst (process_incoming_packets example_layout
            (?s1\<lparr>packet_entries := snd (release_packet_entry (packet_entries ?s1) 0)\<rparr>)) = Ret True"
    by (simp add: process_incoming_packets_def wait_for_system_header_def
        wait_for_payload_def example_layout_def MAX_PAYLOAD_SIZE_def size_t_sub_def Let_def
        release_packet_entry_def MAX_TAG_def)
  from C4_store_into_occupied_slot_is_fatal[OF occupied, of example_layout] released
  show ?thesis by (simp add: first_store)
qed

text \<open>
  Claim C10. Once the system header has arrived, the count that
  \<^verbatim>\<open>process_incoming_packets\<close> asks of the next \<^verbatim>\<open>read\<close> is the declared length
  minus the size of the system header, computed modulo \<open>2 ^ 64\<close>, with no test of the
  declared length before: for a declared length below the header size it is
  \<open>2 ^ 64\<close> minus the shortfall, and only from the header size on is it the number of
  bytes that follow the header. (The \<^verbatim>\<open>read\<close> takes place when bytes remain to be
  read and the deadline has not passed.)
\<close>

theorem C10_remaining_payload_size_wraps:
  assumes "wait_for_system_header L (sock_in s) (read_calls s) MAX_PAYLOAD_SIZE
             = (True, hdr, sock1, calls1)"
    and "len = payload_length_of L hdr"
    and "hsz = sizeof_system_header_packet_t L"
    and "len < 2 ^ 64" and "hsz < 2 ^ 64"
    and "len \<noteq> hsz"
    and "\<forall>rest. sock1 \<noteq> Expire # rest"
  shows "(\<exists>ret ys. read_calls (snd (process_incoming_packets L s))
                     = calls1 @ (0, size_t_sub len hsz, ret) # ys)
       \<and> (len < hsz \<longrightarrow> size_t_sub len hsz = 2 ^ 64 - (hsz - len))
       \<and> (hsz \<le> len \<longrightarrow> size_t_sub len hsz = len - hsz)"
proof -
  have lt: "len < hsz \<Longrightarrow> size_t_sub len hsz = 2 ^ 64 - (hsz - len)"
    using assms(5) by (intro size_t_sub_lt) auto
  have ge: "hsz \<le> len \<Longrightarrow> size_t_sub len hsz = len - hsz"
    using assms(4) by (intro size_t_sub_ge) auto
  have pos: "0 < size_t_sub len hsz"
  proof (cases "len < hsz")
    case True
    then show ?thesis using lt assms(5) by simp
  next
    case False
    then show ?thesis using ge assms(6) by simp
  qed
  let ?w = "wait_for_payload sock1 calls1 (size_t_sub MAX_PAYLOAD_SIZE hsz) (size_t_sub len hsz)"
  obtain ret ys where log: "snd (snd (snd ?w)) = calls1 @ (0, size_t_sub len hsz, ret) # ys"
    using wait_for_payload_first_read[OF pos assms(7)] by blast
  obtain r2 payload sock2 calls2 where w: "?w = (r2, payload, sock2, calls2)"
    by (metis prod_cases4)
  have "read_calls (snd (process_incoming_packets L s)) = calls2"
    using assms(1,2,3) w
    by (cases r2) (auto simp: process_incoming_packets_def Let_def)
  with log w lt ge show ?thesis by auto
qed

text \<open>A header that declares one byte, with a two-byte system header: the next
  \<^verbatim>\<open>read\<close> is asked for \<open>2 ^ 64 - 1\<close> bytes.\<close>

theorem C10_short_length_witness:
  "payload_length_of example_layout [0x10, 0] = 1
   \<and> sizeof_system_header_packet_t example_layout = 2
   \<and> (\<exists>ret ys. read_calls (snd (process_incoming_packets example_layout
                                    (fresh_rx [Data [0x10, 0, 1, 2, 3]])))
                  = [(0, 2, 2)] @ (0, size_t_sub 1 2, ret) # ys)
   \<and> size_t_sub 1 2 = 2 ^ 64 - (2 - 1)"
proof -
  have hdr: "wait_for_system_header example_layout (sock_in (fresh_rx [Data [0x10, 0, 1, 2, 3]]))
               (read_calls (fresh_rx [Data [0x10, 0, 1, 2, 3]])) MAX_PAYLOAD_SIZE
             = (True, [0x10, 0], [Data [1, 2, 3]], [(0, 2, 2)])"
    by (simp add: fresh_rx_def wait_for_system_header_def wait_for_payload_def
          example_layout_def MAX_PAYLOAD_SIZE_def Let_def)
  have len: "payload_length_of example_layout [0x10, 0] = 1"
    by (simp add: example_layout_def)
  have hsz: "sizeof_system_header_packet_t example_layout = 2"
    by (simp add: example_layout_def)
  have ne: "\<forall>rest. [Data [1 :: uint8_t, 2, 3]] \<noteq> Expire # rest" by simp
  have "(\<exists>ret ys. read_calls (snd (process_incoming_packets example_layout
                                    (fresh_rx [Data [0x10, 0, 1, 2, 3]])))
                  = [(0, 2, 2)] @ (0, size_t_sub 1 2, ret) # ys)
       \<and> ((1::nat) < 2 \<longrightarrow> size_t_sub 1 2 = 2 ^ 64 - (2 - 1))
       \<and> ((2::nat) \<le> 1 \<longrightarrow> size_t_sub 1 2 = 1 - 2)"
    by (rule C10_remaining_payload_size_wraps[OF hdr len[symmetric] hsz[symmetric] _ _ _ ne])
       simp_all
  with len hsz show ?thesis by auto
qed


section \<open>The claims about the packet encoder\<close>



text \<open>
  Claim C2. With size 8 and the value \<open>0xFFFFFFFF\<close> the function sends the 64-bit
  packet with that value as its data. With size 4 and the same value it sends
  nothing: \<^verbatim>\<open>assert(val < 0xFFFFFFFF)\<close> fails, the bound being strict, and the
  process ends before a packet is built. (For every other value that fits 32 bits
  the 32-bit packet is sent, and every size other than 4 and 8 ends in an assertion:
  lemma \<open>send_cxl_io_mem_write_variant\<close>.)
\<close>

theorem C2_size_4_all_ones_aborts:
  "result (send_cxl_io_mem_write L wr hpa 0xFFFFFFFF 4) = AssertFail
   \<and> written (send_cxl_io_mem_write L wr hpa 0xFFFFFFFF 4) = []
   \<and> written (send_cxl_io_mem_write L wr hpa 0xFFFFFFFF 8) =
       [Packet_64b
           \<lparr>wr64_system_header =
              \<lparr>payload_type = CXL_IO, payload_length = sizeof_cxl_io_mem_wr_packet_64b_t L\<rparr>,
            wr64_cxl_io_header = \<lparr>fmt_type = MWR_64B, length_upper = 0, length_lower = 2\<rparr>,
            wr64_mreq_header = fill_mreq_header hpa 0,
            wr64_data = 0xFFFFFFFF\<rparr>]"
  by (simp add: send_cxl_io_mem_write_def Let_def get_next_tag_def hdr_length_of_def
        round_up_to_nearest_dword_def EXTRACT_UPPER_2_def EXTRACT_LOWER_8_def extract16_def)

text \<open>
  Claim C3. \<^verbatim>\<open>fill_cxl_io_cfg_req_packet\<close> refuses an offset above \<open>0xFFF\<close> and an
  access that crosses a dword boundary, but both callers drop what it returns: the
  packet, its request header still all zero, is handed to \<^verbatim>\<open>write\<close>, and the
  caller is told that the request was sent.
\<close>

theorem C3_rejected_request_is_sent:
  "fst (fill_cxl_io_cfg_req_packet zero_cfg_req_header bdf 0x1000 4 0 0) = False
   \<and> send_cxl_io_config_space_read L (int (sizeof_cxl_io_cfg_rd_packet_t L)) bdf 0x1000 4 type0 =
       \<lparr>tag_out = 0,
        written = [\<lparr>cfg_rd_system_header =
                      \<lparr>payload_type = CXL_IO,
                       payload_length = sizeof_cxl_io_cfg_rd_packet_t L\<rparr>,
                    cfg_rd_cxl_io_header =
                      \<lparr>fmt_type = (if type0 then CFG_RD0 else CFG_RD1),
                       length_upper = 0, length_lower = 1\<rparr>,
                    cfg_rd_req_header = zero_cfg_req_header\<rparr>],
        result = Ret True\<rparr>
   \<and> fst (fill_cxl_io_cfg_req_packet zero_cfg_req_header bdf 0x03 2 0 0) = False
   \<and> send_cxl_io_config_space_write L (int (sizeof_cxl_io_cfg_wr_packet_t L)) bdf 0x03 val 2 type0 =
       \<lparr>tag_out = 0,
        written = [\<lparr>cfg_wr_system_header =
                      \<lparr>payload_type = CXL_IO,
                       payload_length = sizeof_cxl_io_cfg_wr_packet_t L\<rparr>,
                    cfg_wr_cxl_io_header =
                      \<lparr>fmt_type = (if type0 then CFG_WR0 else CFG_WR1),
                       length_upper = 0, length_lower = 1\<rparr>,
                    cfg_wr_req_header = zero_cfg_req_header,
                    cfg_wr_value = val\<rparr>],
        result = Ret True\<rparr>"
  by (simp add: send_cxl_io_config_space_read_def send_cxl_io_config_space_write_def
        fill_cxl_io_cfg_req_packet_def Let_def get_next_tag_def write_successful_def)



text \<open>
  Claim C8. The request-with-data packet of a CXL.mem write carries the address
  shifted right by six bits (the address divided by 64; 1 for the address \<open>0x40\<close>),
  the opcode \<open>MEM_WR\<close>, the first \<open>CXL_MEM_ACCESS_UNIT\<close> bytes of the caller's data,
  and as payload length the size of the packet: the headers plus the access unit.
  The caller's buffer holds at least an access unit.
\<close>

theorem C8_mem_write_packet:
  assumes "CXL_MEM_ACCESS_UNIT \<le> length data"
  shows "(\<exists>p. written (send_cxl_mem_mem_write L wr hpa data) = [p]
            \<and> addr (m2s_rwd_header p) = drop_bit 6 hpa
            \<and> unat (addr (m2s_rwd_header p)) = unat hpa div 64
            \<and> mem_opcode (m2s_rwd_header p) = MEM_WR
            \<and> rwd_data p = take CXL_MEM_ACCESS_UNIT data
            \<and> length (rwd_data p) = CXL_MEM_ACCESS_UNIT
            \<and> payload_length (rwd_system_header p) =
                (sizeof_system_header_packet_t L + sizeof_cxl_mem_header_t L
                   + sizeof_cxl_mem_m2s_rwd_header_t L) + CXL_MEM_ACCESS_UNIT)
       \<and> (\<exists>p. written (send_cxl_mem_mem_write L wr 0x40 data) = [p]
            \<and> addr (m2s_rwd_header p) = 1)"
  using assms
  by (simp add: send_cxl_mem_mem_write_def Let_def sizeof_cxl_mem_m2s_rwd_packet_t_def
        unat_drop_bit_eq drop_bit_eq_div unat_div)

theorem C8_mem_write_witness:
  "CXL_MEM_ACCESS_UNIT \<le> length (replicate 64 (0xAB :: uint8_t))
   \<and> (\<exists>p. written (send_cxl_mem_mem_write example_layout 80 0x40 (replicate 64 0xAB)) = [p]
          \<and> addr (m2s_rwd_header p) = 1
          \<and> mem_opcode (m2s_rwd_header p) = MEM_WR
          \<and> length (rwd_data p) = 64
          \<and> payload_length (rwd_system_header p) = 80)"
proof -
  have h: "CXL_MEM_ACCESS_UNIT \<le> length (replicate 64 (0xAB :: uint8_t))"
    by (simp add: CXL_MEM_ACCESS_UNIT_def)
  from C8_mem_write_packet[OF h, of example_layout 80 "0x40"] h
  show ?thesis
    by (simp add: send_cxl_mem_mem_write_def Let_def sizeof_cxl_mem_m2s_rwd_packet_t_def
          example_layout_def CXL_MEM_ACCESS_UNIT_def)
qed


section \<open>The configuration request header\<close>

declare first_dw_be_loop.simps [simp del]

lemma htons_bytes:
  "take_bit 8 (htons x) = drop_bit 8 x \<and> drop_bit 8 (htons x) = take_bit 8 x"
  apply (rule conjI)
  apply (rule bit_eqI)
   apply (auto simp add: htons_def bit_simps dest: bit_imp_le_length)[1]
  apply (rule bit_eqI)
  apply (auto simp add: htons_def bit_simps dest: bit_imp_le_length)[1]
  done

lemma first_dw_be_loop_bits:
  "unat offset + (sz - i) \<le> 8 \<Longrightarrow>
   bit (first_dw_be_loop i sz be offset) j \<longleftrightarrow>
     bit be j \<or> (unat offset \<le> j \<and> j < unat offset + (sz - i))"
proof (induction i sz be offset rule: first_dw_be_loop.induct)
  case (1 i sz be offset)
  show ?case
  proof (cases "i < sz")
    case False
    then have "first_dw_be_loop i sz be offset = be"
      by (subst first_dw_be_loop.simps) simp
    with False show ?thesis by auto
  next
    case True
    then have off: "unat offset < 8" using "1.prems" by simp
    then have suc: "unat (offset + 1) = unat offset + 1"
      by (simp add: unat_word_ariths)
    have step: "first_dw_be_loop i sz be offset =
                first_dw_be_loop (i + 1) sz (be OR push_bit (unat offset) 1) (offset + 1)"
      using True by (subst first_dw_be_loop.simps) simp
    have "unat (offset + 1) + (sz - (i + 1)) \<le> 8" using True "1.prems" suc by simp
    from "1.IH"[OF True this]
    have "bit (first_dw_be_loop i sz be offset) j \<longleftrightarrow>
            bit (be OR push_bit (unat offset) 1) j
            \<or> (unat offset + 1 \<le> j \<and> j < unat offset + 1 + (sz - (i + 1)))"
      unfolding step suc .
    moreover have "bit (push_bit (unat offset) (1 :: uint8_t)) j \<longleftrightarrow> j = unat offset"
      using off by (auto simp: bit_simps)
    ultimately show ?thesis using True by (auto simp: bit_simps)
  qed
qed

lemma unat_offset8:
  "unat (ucast (cfg_addr AND 0x03 :: uint32_t) :: uint8_t) = unat (cfg_addr AND 0x03)"
proof -
  have m: "(0x03 :: uint32_t) = mask 2" by (simp add: mask_eq_decr_exp)
  show ?thesis
    unfolding m by (simp add: unsigned_ucast_eq unsigned_take_bit_eq flip: take_bit_eq_mask)
qed

lemma unat_size8:
  assumes "0 \<le> sz" and "sz \<le> 4"
  shows "unat (word_of_int sz :: uint8_t) = nat sz"
proof -
  have "unat (word_of_int sz :: uint8_t) = unat (of_nat (nat sz) :: uint8_t)"
    by (simp only: word_of_int_nat[OF assms(1)])
  also have "\<dots> = nat sz mod 2 ^ LENGTH(8)" by (rule unat_of_nat)
  also have "\<dots> = nat sz" using assms by simp
  finally show ?thesis .
qed

lemma bits_reg_num:
  "bit (drop_bit 2 (offset :: uint32_t) AND 0x3F) j \<longleftrightarrow> j < 6 \<and> bit offset (j + 2)"
proof -
  have m: "(0x3F :: uint32_t) = mask 6" by (simp add: mask_eq_decr_exp)
  show ?thesis unfolding m by (auto simp: bit_simps add.commute)
qed

lemma bits_ext_reg_num:
  "bit (drop_bit 8 (offset :: uint32_t) AND 0xF) j \<longleftrightarrow> j < 4 \<and> bit offset (j + 8)"
proof -
  have m: "(0xF :: uint32_t) = mask 4" by (simp add: mask_eq_decr_exp)
  show ?thesis unfolding m by (auto simp: bit_simps add.commute)
qed

lemma fill_cxl_io_cfg_req_packet_valid:
  assumes "cfg_addr \<le> 0xFFF" and "unat (cfg_addr AND 0x03) + unat size' \<le> 4"
  shows "fill_cxl_io_cfg_req_packet header id' cfg_addr size' req_id tag =
           (True, header\<lparr>cfg_req_id := htons req_id, cfg_tag := tag,
                    first_dw_be := first_dw_be_loop 0 (unat size') 0 (ucast (cfg_addr AND 0x03)),
                    last_dw_be := 0, dest_id := htons id',
                    ext_reg_num := drop_bit 8 cfg_addr AND 0xF,
                    reg_num := drop_bit 2 cfg_addr AND 0x3F\<rparr>)"
proof -
  have a: "\<not> 0xFFF < cfg_addr" using assms(1) by simp
  have b: "\<not> 4 < unat (ucast (cfg_addr AND 0x03) :: uint8_t) + unat size'"
    using assms(2) by (simp add: unat_offset8)
  show ?thesis
    unfolding fill_cxl_io_cfg_req_packet_def Let_def using a b by simp
qed

lemma first_dw_be_valid:
  assumes "unat (cfg_addr AND 0x03) + unat size' \<le> 4"
  shows "bit (first_dw_be_loop 0 (unat size') 0 (ucast (cfg_addr AND 0x03 :: uint32_t))) j \<longleftrightarrow>
           unat (cfg_addr AND 0x03) \<le> j \<and> j < unat (cfg_addr AND 0x03) + unat size'"
  using assms first_dw_be_loop_bits[of "ucast (cfg_addr AND 0x03)" "unat size'" 0 0 j]
  by (simp add: unat_offset8)


section \<open>Byte order\<close>

lemma htonll_example: "htonll 0x0102030405060708 = 0x0807060504030201"
  by (simp add: htonll_def)









section \<open>The claims about the request headers\<close>

text \<open>
  Claim C5. For a configuration request inside the 4096-byte space that stays within
  one dword, the read and the write packet carry the same request header: the
  destination id is the identifier with its two bytes exchanged (network byte order
  on the little-endian host), the register number is bits 7 to 2 of the offset, the
  extension register number is bits 11 to 8, and the first-dword byte enable has
  exactly the bits from \<open>offset AND 3\<close> on, one for each byte of the access. The
  payload length is the size of the packet. For the read at offset \<open>0x04\<close> with size
  2 the byte enable is \<open>0b0011\<close>.
\<close>

theorem C5_cfg_request_fields:
  assumes "offset \<le> 0xFFF" and "0 \<le> sz" and "unat (offset AND 0x03) + nat sz \<le> 4"
  shows "(\<exists>h. written (send_cxl_io_config_space_read L wr bdf offset sz type0) =
               [\<lparr>cfg_rd_system_header =
                    \<lparr>payload_type = CXL_IO,
                     payload_length = sizeof_cxl_io_cfg_rd_packet_t L\<rparr>,
                  cfg_rd_cxl_io_header =
                    \<lparr>fmt_type = (if type0 then CFG_RD0 else CFG_RD1),
                     length_upper = 0, length_lower = 1\<rparr>,
                  cfg_rd_req_header = h\<rparr>]
            \<and> written (send_cxl_io_config_space_write L wr bdf offset val sz type0) =
               [\<lparr>cfg_wr_system_header =
                    \<lparr>payload_type = CXL_IO,
                     payload_length = sizeof_cxl_io_cfg_wr_packet_t L\<rparr>,
                  cfg_wr_cxl_io_header =
                    \<lparr>fmt_type = (if type0 then CFG_WR0 else CFG_WR1),
                     length_upper = 0, length_lower = 1\<rparr>,
                  cfg_wr_req_header = h,
                  cfg_wr_value = val\<rparr>]
            \<and> dest_id h = htons bdf
            \<and> take_bit 8 (dest_id h) = drop_bit 8 bdf
            \<and> drop_bit 8 (dest_id h) = take_bit 8 bdf
            \<and> (\<forall>j. bit (reg_num h) j \<longleftrightarrow> j < 6 \<and> bit offset (j + 2))
            \<and> (\<forall>j. bit (ext_reg_num h) j \<longleftrightarrow> j < 4 \<and> bit offset (j + 8))
            \<and> (\<forall>j. bit (first_dw_be h) j \<longleftrightarrow>
                     unat (offset AND 0x03) \<le> j \<and> j < unat (offset AND 0x03) + nat sz))
       \<and> (\<exists>h. written (send_cxl_io_config_space_read L wr 0 0x04 2 True) =
               [\<lparr>cfg_rd_system_header =
                    \<lparr>payload_type = CXL_IO,
                     payload_length = sizeof_cxl_io_cfg_rd_packet_t L\<rparr>,
                  cfg_rd_cxl_io_header =
                    \<lparr>fmt_type = CFG_RD0, length_upper = 0, length_lower = 1\<rparr>,
                  cfg_rd_req_header = h\<rparr>]
            \<and> first_dw_be h = 0b0011 \<and> dest_id h = 0 \<and> reg_num h = 1 \<and> ext_reg_num h = 0)"
proof -
  let ?size8 = "word_of_int sz :: uint8_t"
  have sz4: "sz \<le> 4" using assms(3) by simp
  have size8: "unat ?size8 = nat sz" using assms(2) sz4 by (rule unat_size8)
  have valid: "unat (offset AND 0x03) + unat ?size8 \<le> 4" using assms(3) size8 by simp
  let ?h = "zero_cfg_req_header\<lparr>cfg_req_id := htons 0, cfg_tag := ucast get_next_tag,
                    first_dw_be := first_dw_be_loop 0 (unat ?size8) 0 (ucast (offset AND 0x03)),
                    last_dw_be := 0, dest_id := htons bdf,
                    ext_reg_num := drop_bit 8 offset AND 0xF,
                    reg_num := drop_bit 2 offset AND 0x3F\<rparr>"
  have fill: "fill_cxl_io_cfg_req_packet zero_cfg_req_header bdf offset ?size8 0
                (ucast get_next_tag) = (True, ?h)"
    using assms(1) valid by (rule fill_cxl_io_cfg_req_packet_valid)
  have rd: "written (send_cxl_io_config_space_read L wr bdf offset sz type0) =
               [\<lparr>cfg_rd_system_header =
                    \<lparr>payload_type = CXL_IO,
                     payload_length = sizeof_cxl_io_cfg_rd_packet_t L\<rparr>,
                  cfg_rd_cxl_io_header =
                    \<lparr>fmt_type = (if type0 then CFG_RD0 else CFG_RD1),
                     length_upper = 0, length_lower = 1\<rparr>,
                  cfg_rd_req_header = ?h\<rparr>]"
    by (simp add: send_cxl_io_config_space_read_def Let_def fill)
  have wr: "written (send_cxl_io_config_space_write L wr bdf offset val sz type0) =
               [\<lparr>cfg_wr_system_header =
                    \<lparr>payload_type = CXL_IO,
                     payload_length = sizeof_cxl_io_cfg_wr_packet_t L\<rparr>,
                  cfg_wr_cxl_io_header =
                    \<lparr>fmt_type = (if type0 then CFG_WR0 else CFG_WR1),
                     length_upper = 0, length_lower = 1\<rparr>,
                  cfg_wr_req_header = ?h,
                  cfg_wr_value = val\<rparr>]"
    by (simp add: send_cxl_io_config_space_write_def Let_def fill)
  have be: "\<forall>j. bit (first_dw_be ?h) j \<longleftrightarrow>
                     unat (offset AND 0x03) \<le> j \<and> j < unat (offset AND 0x03) + nat sz"
    using first_dw_be_valid[OF valid] size8 by simp
  have general: "\<exists>h. written (send_cxl_io_config_space_read L wr bdf offset sz type0) =
               [\<lparr>cfg_rd_system_header =
                    \<lparr>payload_type = CXL_IO,
                     payload_length = sizeof_cxl_io_cfg_rd_packet_t L\<rparr>,
                  cfg_rd_cxl_io_header =
                    \<lparr>fmt_type = (if type0 then CFG_RD0 else CFG_RD1),
                     length_upper = 0, length_lower = 1\<rparr>,
                  cfg_rd_req_header = h\<rparr>]
            \<and> written (send_cxl_io_config_space_write L wr bdf offset val sz type0) =
               [\<lparr>cfg_wr_system_header =
                    \<lparr>payload_type = CXL_IO,
                     payload_length = sizeof_cxl_io_cfg_wr_packet_t L\<rparr>,
                  cfg_wr_cxl_io_header =
                    \<lparr>fmt_type = (if type0 then CFG_WR0 else CFG_WR1),
                     length_upper = 0, length_lower = 1\<rparr>,
                  cfg_wr_req_header = h,
                  cfg_wr_value = val\<rparr>]
            \<and> dest_id h = htons bdf
            \<and> take_bit 8 (dest_id h) = drop_bit 8 bdf
            \<and> drop_bit 8 (dest_id h) = take_bit 8 bdf
            \<and> (\<forall>j. bit (reg_num h) j \<longleftrightarrow> j < 6 \<and> bit offset (j + 2))
            \<and> (\<forall>j. bit (ext_reg_num h) j \<longleftrightarrow> j < 4 \<and> bit offset (j + 8))
            \<and> (\<forall>j. bit (first_dw_be h) j \<longleftrightarrow>
                     unat (offset AND 0x03) \<le> j \<and> j < unat (offset AND 0x03) + nat sz)"
    apply (rule exI[of _ ?h])
    apply (intro conjI)
           apply (rule rd)
          apply (rule wr)
         apply simp
        apply (simp add: htons_bytes)
       apply (simp add: htons_bytes)
      apply (simp add: bits_reg_num)
     apply (simp add: bits_ext_reg_num)
    apply (rule be)
    done
  have particular: "\<exists>h. written (send_cxl_io_config_space_read L wr 0 0x04 2 True) =
               [\<lparr>cfg_rd_system_header =
                    \<lparr>payload_type = CXL_IO,
                     payload_length = sizeof_cxl_io_cfg_rd_packet_t L\<rparr>,
                  cfg_rd_cxl_io_header =
                    \<lparr>fmt_type = CFG_RD0, length_upper = 0, length_lower = 1\<rparr>,
                  cfg_rd_req_header = h\<rparr>]
            \<and> first_dw_be h = 0b0011 \<and> dest_id h = 0 \<and> reg_num h = 1 \<and> ext_reg_num h = 0"
    by (simp add: send_cxl_io_config_space_read_def fill_cxl_io_cfg_req_packet_def Let_def
          first_dw_be_loop.simps htons_def zero_cfg_req_header_def get_next_tag_def)
  from general particular show ?thesis by (rule conjI)
qed

text \<open>The configuration read of the spec's scenario: bus 0, device 0, function 0,
  register offset \<open>0x04\<close>, size 2, type 0.\<close>

theorem C5_cfg_read_witness:
  "(4 :: uint32_t) \<le> 0xFFF \<and> (0 :: int) \<le> 2 \<and> unat ((4 :: uint32_t) AND 0x03) + nat 2 \<le> 4
   \<and> written (send_cxl_io_config_space_read example_layout 14 0 0x04 2 True) =
               [\<lparr>cfg_rd_system_header = \<lparr>payload_type = CXL_IO, payload_length = 14\<rparr>,
                  cfg_rd_cxl_io_header =
                    \<lparr>fmt_type = CFG_RD0, length_upper = 0, length_lower = 1\<rparr>,
                  cfg_rd_req_header =
                    \<lparr>cfg_req_id = 0, cfg_tag = 0, first_dw_be = 0b0011, last_dw_be = 0,
                     dest_id = 0, ext_reg_num = 0, reg_num = 1\<rparr>\<rparr>]"
proof -
  have a: "(4 :: uint32_t) \<le> 0xFFF" by simp
  have b: "(0 :: int) \<le> 2" by simp
  have c: "unat ((4 :: uint32_t) AND 0x03) + nat 2 \<le> 4" by simp
  from C5_cfg_request_fields[OF a b c, of example_layout 14 0 True 0] a b c
  show ?thesis
    by (simp add: send_cxl_io_config_space_read_def fill_cxl_io_cfg_req_packet_def Let_def
          first_dw_be_loop.simps htons_def zero_cfg_req_header_def get_next_tag_def
          example_layout_def)
qed




section \<open>The claim about the wait functions\<close>

text \<open>The three CXL.io wait functions test \<^verbatim>\<open>packet_size > 0\<close> and then assert the
  size: an entry of any other size ends the process.\<close>

lemma cxl_io_wait_size_mismatch_asserts:
  assumes "unat tag < MAX_TAG"
    and "0 < packet_size (packet_entries s (unat tag))"
  shows "packet_size (packet_entries s (unat tag)) \<noteq> sizeof_cxl_io_completion_packet_t L
           \<Longrightarrow> wait_for_cxl_io_completion L s tag = Some (AssertFail, s)"
    and "packet_size (packet_entries s (unat tag)) \<noteq> sizeof_cxl_io_completion_data_packet_32b_t L
           \<Longrightarrow> packet_size (packet_entries s (unat tag))
                 \<noteq> sizeof_cxl_io_completion_data_packet_64b_t L
           \<Longrightarrow> wait_for_cxl_io_completion_data L s tag data = Some (AssertFail, s)"
    and "packet_size (packet_entries s (unat tag)) \<noteq> sizeof_cxl_io_completion_packet_t L
           \<Longrightarrow> packet_size (packet_entries s (unat tag))
                 \<noteq> sizeof_cxl_io_completion_data_packet_32b_t L
           \<Longrightarrow> wait_for_cxl_io_cfg_completion L s tag cfg_data = Some (AssertFail, s)"
  using assms
  by (simp_all add: wait_for_cxl_io_completion.simps[of L s tag]
        wait_for_cxl_io_completion_data.simps[of L s tag data]
        wait_for_cxl_io_cfg_completion.simps[of L s tag cfg_data] get_packet_entry_def)

text \<open>
  Claim C6. The wait functions for the sideband packet and for the two CXL.mem
  completions have no such assertion: they compare the size with the expected one
  and, when it differs, go on to receive. Here slot 0 holds a packet of 14 bytes
  (the size of a CXL.io completion, not of any of the three packets waited for) and
  the peer has closed the connection: each of the three returns \<^verbatim>\<open>NULL\<close>, as for any
  failed read, and leaves the entry in place. The CXL.io sibling, on an entry whose
  size is not the one it expects, ends in the assertion.
\<close>

theorem C6_mis_sized_entry_returns_null:
  "wait_for_cxl_mem_completion example_layout
     \<lparr>packet_entries = initial_packet_entries
        (0 := \<lparr>packet = replicate 512 0, packet_size = 14\<rparr>),
      sock_in = [], read_calls = [], stack_buffer = []\<rparr> 0
   = Some (Ret None,
       \<lparr>packet_entries = initial_packet_entries
          (0 := \<lparr>packet = replicate 512 0, packet_size = 14\<rparr>),
        sock_in = [], read_calls = [(0, 2, 0)], stack_buffer = []\<rparr>)
   \<and> wait_for_cxl_mem_mem_data example_layout
     \<lparr>packet_entries = initial_packet_entries
        (0 := \<lparr>packet = replicate 512 0, packet_size = 14\<rparr>),
      sock_in = [], read_calls = [], stack_buffer = []\<rparr> 0
   = Some (Ret None,
       \<lparr>packet_entries = initial_packet_entries
          (0 := \<lparr>packet = replicate 512 0, packet_size = 14\<rparr>),
        sock_in = [], read_calls = [(0, 2, 0)], stack_buffer = []\<rparr>)
   \<and> wait_for_base_sideband_packet example_layout
     \<lparr>packet_entries = initial_packet_entries
        (0 := \<lparr>packet = replicate 512 0, packet_size = 14\<rparr>),
      sock_in = [], read_calls = [], stack_buffer = []\<rparr>
   = Some (Ret None,
       \<lparr>packet_entries = initial_packet_entries
          (0 := \<lparr>packet = replicate 512 0, packet_size = 14\<rparr>),
        sock_in = [], read_calls = [(0, 2, 0)], stack_buffer = []\<rparr>)
   \<and> sizeof_cxl_mem_s2m_ndr_packet_t example_layout \<noteq> 14
   \<and> sizeof_cxl_mem_s2m_drs_packet_t example_layout \<noteq> 14
   \<and> sizeof_base_sideband_packet_t example_layout \<noteq> 14
   \<and> wait_for_cxl_io_completion example_layout
     \<lparr>packet_entries = initial_packet_entries
        (0 := \<lparr>packet = replicate 512 0, packet_size = 8\<rparr>),
      sock_in = [], read_calls = [], stack_buffer = []\<rparr> 0
   = Some (AssertFail,
       \<lparr>packet_entries = initial_packet_entries
          (0 := \<lparr>packet = replicate 512 0, packet_size = 8\<rparr>),
        sock_in = [], read_calls = [], stack_buffer = []\<rparr>)"
proof -
  note ev = get_packet_entry_def MAX_TAG_def process_incoming_packets_def
    wait_for_system_header_def wait_for_payload_def example_layout_def
    MAX_PAYLOAD_SIZE_def Let_def initial_packet_entries_def empty_entry_def
  have ndr: "wait_for_cxl_mem_completion example_layout
     \<lparr>packet_entries = initial_packet_entries
        (0 := \<lparr>packet = replicate 512 0, packet_size = 14\<rparr>),
      sock_in = [], read_calls = [], stack_buffer = []\<rparr> 0
   = Some (Ret None,
       \<lparr>packet_entries = initial_packet_entries
          (0 := \<lparr>packet = replicate 512 0, packet_size = 14\<rparr>),
        sock_in = [], read_calls = [(0, 2, 0)], stack_buffer = []\<rparr>)"
    by (subst wait_for_cxl_mem_completion.simps) (simp add: ev)
  have drs: "wait_for_cxl_mem_mem_data example_layout
     \<lparr>packet_entries = initial_packet_entries
        (0 := \<lparr>packet = replicate 512 0, packet_size = 14\<rparr>),
      sock_in = [], read_calls = [], stack_buffer = []\<rparr> 0
   = Some (Ret None,
       \<lparr>packet_entries = initial_packet_entries
          (0 := \<lparr>packet = replicate 512 0, packet_size = 14\<rparr>),
        sock_in = [], read_calls = [(0, 2, 0)], stack_buffer = []\<rparr>)"
    by (subst wait_for_cxl_mem_mem_data.simps) (simp add: ev)
  have sb: "wait_for_base_sideband_packet example_layout
     \<lparr>packet_entries = initial_packet_entries
        (0 := \<lparr>packet = replicate 512 0, packet_size = 14\<rparr>),
      sock_in = [], read_calls = [], stack_buffer = []\<rparr>
   = Some (Ret None,
       \<lparr>packet_entries = initial_packet_entries
          (0 := \<lparr>packet = replicate 512 0, packet_size = 14\<rparr>),
        sock_in = [], read_calls = [(0, 2, 0)], stack_buffer = []\<rparr>)"
    by (subst wait_for_base_sideband_packet.simps) (simp add: ev)
  have io: "wait_for_cxl_io_completion example_layout
     \<lparr>packet_entries = initial_packet_entries
        (0 := \<lparr>packet = replicate 512 0, packet_size = 8\<rparr>),
      sock_in = [], read_calls = [], stack_buffer = []\<rparr> 0
   = Some (AssertFail,
       \<lparr>packet_entries = initial_packet_entries
          (0 := \<lparr>packet = replicate 512 0, packet_size = 8\<rparr>),
        sock_in = [], read_calls = [], stack_buffer = []\<rparr>)"
    by (subst wait_for_cxl_io_completion.simps) (simp add: ev)
  have sizes: "sizeof_cxl_mem_s2m_ndr_packet_t example_layout \<noteq> 14"
    "sizeof_cxl_mem_s2m_drs_packet_t example_layout \<noteq> 14"
    "sizeof_base_sideband_packet_t example_layout \<noteq> 14"
    by (simp_all add: example_layout_def)
  from ndr drs sb io sizes show ?thesis by (intro conjI)
qed

end
